theory Spec2Isabelle
  imports Complex_Main
begin

section \<open>JavaScript values\<close>

text \<open>
  The script is dynamically typed, and the documents it reads come from a schemaless
  store, so the model keeps JavaScript's values.  A finite number is modelled by its
  exact rational value (the rounding of IEEE doubles is not modelled); \<open>NaN\<close> and the
  two infinities are values of their own.  A string is a list of characters.
\<close>

datatype jsnum = NaN | PosInf | NegInf | Fin rat

datatype jsval =
    JUndefined
  | JNull
  | JBool bool
  | JNum jsnum
  | JStr string
  | JArr "jsval list"
  | JObj "(string \<times> jsval) list"

text \<open>What a \<^verbatim>\<open>throw\<close> carries.  \<open>FirebaseError\<close> stands for every rejection by the store
  client: a refused query as well as a transport failure.\<close>

datatype error = TypeError | SyntaxError | RangeError | FirebaseError string

text \<open>JavaScript's truthiness, as \<^verbatim>\<open>if (x)\<close>, \<^verbatim>\<open>!x\<close> and \<^verbatim>\<open>x || y\<close> read it.\<close>

fun truthy :: "jsval \<Rightarrow> bool" where
  "truthy JUndefined = False"
| "truthy JNull = False"
| "truthy (JBool b) = b"
| "truthy (JNum NaN) = False"
| "truthy (JNum (Fin q)) = (q \<noteq> 0)"
| "truthy (JNum _) = True"
| "truthy (JStr s) = (s \<noteq> [])"
| "truthy (JArr _) = True"
| "truthy (JObj _) = True"

text \<open>\<^verbatim>\<open>x || y\<close>\<close>

definition orElse :: "jsval \<Rightarrow> jsval \<Rightarrow> jsval" where
  "orElse x y = (if truthy x then x else y)"

text \<open>\<^verbatim>\<open>typeof x === 'string'\<close>\<close>

fun isString :: "jsval \<Rightarrow> bool" where
  "isString (JStr _) = True"
| "isString _ = False"

text \<open>\<^verbatim>\<open>x.startsWith(p)\<close> and \<^verbatim>\<open>x.endsWith(p)\<close>: methods of strings only; on any other
  value the call is a TypeError.\<close>

definition startsWith :: "jsval \<Rightarrow> string \<Rightarrow> error + bool" where
  "startsWith x p = (case x of JStr s \<Rightarrow> Inr (take (length p) s = p) | _ \<Rightarrow> Inl TypeError)"

definition endsWith :: "jsval \<Rightarrow> string \<Rightarrow> error + bool" where
  "endsWith x p =
     (case x of JStr s \<Rightarrow> Inr (length p \<le> length s \<and> drop (length s - length p) s = p)
      | _ \<Rightarrow> Inl TypeError)"

section \<open>The host: what the script calls and does not define\<close>

text \<open>
  The engine's builtins and the store client are parameters of the model:
  \<^item> \<open>JSON_parse\<close> is \<^verbatim>\<open>JSON.parse\<close> (\<open>Inl\<close> is its SyntaxError);
  \<^item> \<open>coerceNumber\<close> is the conversion to a number of a value that is not a number;
  \<^item> \<open>formatCurrency c x\<close> is \<^verbatim>\<open>new Intl.NumberFormat('en-US', {style: 'currency',
    currency: c, minimumFractionDigits: 0, maximumFractionDigits: 0}).format(x)\<close>
    (\<open>Inl\<close> is the RangeError of a malformed currency code);
  \<^item> \<open>getDocs\<close> answers a composed query with a page of document snapshots or with an
    error.  The query constructors themselves are taken to be pure builders: a
    constraint the client refuses is an error of \<open>getDocs\<close>.
\<close>

record docSnap =
  snap_id :: string
  snap_data :: "(string \<times> jsval) list"

datatype fieldPath = Field string | DocumentId

datatype whereOp = Eq | Ge | Le | In

datatype clause =
    Where fieldPath whereOp jsval
  | OrderBy jsval jsval
  | StartAfter docSnap
  | Limit nat

record host =
  JSON_parse :: "jsval \<Rightarrow> error + jsval"
  coerceNumber :: "jsval \<Rightarrow> jsnum"
  formatCurrency :: "string \<Rightarrow> jsnum \<Rightarrow> error + string"
  getDocs :: "clause list \<Rightarrow> error + docSnap list"

section \<open>\<^verbatim>\<open>parseAmenities\<close>\<close>

text \<open>\<^verbatim>\<open>typeof x === 'string' && x.startsWith('[') && x.endsWith(']')\<close>, with the
  short-circuit of \<^verbatim>\<open>&&\<close>.\<close>

definition isSerialized :: "jsval \<Rightarrow> error + bool" where
  "isSerialized x =
     (if \<not> isString x then Inr False
      else case startsWith x ''['' of
             Inl e \<Rightarrow> Inl e
           | Inr b \<Rightarrow> if \<not> b then Inr False else endsWith x '']'')"

text \<open>\<^verbatim>\<open>try { return JSON.parse(x); } catch (e) { console.error(...); return []; }\<close>\<close>

definition parseOrEmpty :: "host \<Rightarrow> jsval \<Rightarrow> error + jsval" where
  "parseOrEmpty h x = (case JSON_parse h x of Inl e \<Rightarrow> Inr (JArr []) | Inr v \<Rightarrow> Inr v)"

definition parseAmenities :: "host \<Rightarrow> jsval \<Rightarrow> error + jsval" where
  "parseAmenities h amenitiesData =
     (if \<not> truthy amenitiesData then Inr (JArr [])
      else case amenitiesData of
        JArr items \<Rightarrow>
          (case (if length items = 1 then isSerialized (items ! 0) else Inr False) of
             Inl e \<Rightarrow> Inl e
           | Inr wrapped \<Rightarrow>
               if wrapped then parseOrEmpty h (items ! 0)
               else Inr (JArr (filter isString items)))
      | _ \<Rightarrow>
          (case isSerialized amenitiesData of
             Inl e \<Rightarrow> Inl e
           | Inr serialized \<Rightarrow>
               if serialized then parseOrEmpty h amenitiesData
               else Inr (JArr [])))"

text \<open>A text that starts with \<^verbatim>\<open>[\<close> is, by JSON's grammar, either an array or no JSON
  at all: what a host's \<^verbatim>\<open>JSON.parse\<close> is relied on for.\<close>

definition bracketed :: "string \<Rightarrow> bool" where
  "bracketed s = (take 1 s = ''['' \<and> 1 \<le> length s \<and> drop (length s - 1) s = '']'')"

definition parsesArrays :: "host \<Rightarrow> bool" where
  "parsesArrays h =
     (\<forall>s v. bracketed s \<and> JSON_parse h (JStr s) = Inr v \<longrightarrow> (\<exists>xs. v = JArr xs))"

text \<open>The text that \<^verbatim>\<open>parseAmenities\<close> is meant to hand to \<^verbatim>\<open>JSON.parse\<close>, if any: the
  stored value is a single serialized string, or a sequence wrapping one.\<close>

fun serializedText :: "jsval \<Rightarrow> string option" where
  "serializedText (JStr s) = (if bracketed s then Some s else None)"
| "serializedText (JArr [JStr s]) = (if bracketed s then Some s else None)"
| "serializedText _ = None"

section \<open>Numbers: \<^verbatim>\<open>parseFloat\<close>, comparison, multiplication\<close>

text \<open>
  \<^verbatim>\<open>parseFloat\<close> skips leading white space and reads the longest prefix that is a decimal
  literal: an optional sign, then \<^verbatim>\<open>Infinity\<close> or digits with an optional fraction and
  an optional exponent.  With no such prefix the result is \<open>NaN\<close>: the parse has failed.
  White space is the ASCII white space.
\<close>

definition isWhiteSpace :: "char \<Rightarrow> bool" where
  "isWhiteSpace c = (c \<in> set [CHR '' '', CHR 0x09, CHR 0x0A, CHR 0x0B, CHR 0x0C, CHR 0x0D])"

definition isDigit :: "char \<Rightarrow> bool" where
  "isDigit c = (c \<in> set ''0123456789'')"

definition digitValue :: "char \<Rightarrow> nat" where
  "digitValue c = of_char c - 48"

definition decimal :: "string \<Rightarrow> nat" where
  "decimal ds = foldl (\<lambda>n c. 10 * n + digitValue c) 0 ds"

definition signOf :: "string \<Rightarrow> bool \<times> string" where
  "signOf t =
     (case t of
        [] \<Rightarrow> (False, t)
      | c # r \<Rightarrow> if c = CHR ''-'' then (True, r) else if c = CHR ''+'' then (False, r) else (False, t))"

definition exponentOf :: "string \<Rightarrow> int" where
  "exponentOf r =
     (case r of
        [] \<Rightarrow> 0
      | c # r1 \<Rightarrow>
          if c = CHR ''e'' \<or> c = CHR ''E'' then
            (let ds = takeWhile isDigit (snd (signOf r1))
             in if ds = [] then 0
                else if fst (signOf r1) then - int (decimal ds) else int (decimal ds))
          else 0)"

definition scale10 :: "rat \<Rightarrow> int \<Rightarrow> rat" where
  "scale10 m e = (if 0 \<le> e then m * 10 ^ nat e else m / 10 ^ nat (- e))"

definition parseFloat :: "string \<Rightarrow> jsnum" where
  "parseFloat inputString =
     (let neg = fst (signOf (dropWhile isWhiteSpace inputString));
          u = snd (signOf (dropWhile isWhiteSpace inputString));
          ip = takeWhile isDigit u;
          r1 = dropWhile isDigit u;
          fp = (case r1 of [] \<Rightarrow> [] | c # r \<Rightarrow> if c = CHR ''.'' then takeWhile isDigit r else []);
          r2 = (case r1 of [] \<Rightarrow> r1 | c # r \<Rightarrow> if c = CHR ''.'' then dropWhile isDigit r else r1)
      in if take 8 u = ''Infinity'' then (if neg then NegInf else PosInf)
         else if ip = [] \<and> fp = [] then NaN
         else let v = scale10 (of_nat (decimal (ip @ fp)) / 10 ^ length fp) (exponentOf r2)
              in Fin (if neg then - v else v))"

text \<open>\<^verbatim>\<open>a <= b\<close> on numbers: false as soon as one side is \<open>NaN\<close>.\<close>

fun num_le :: "jsnum \<Rightarrow> jsnum \<Rightarrow> bool" where
  "num_le NaN _ = False"
| "num_le _ NaN = False"
| "num_le NegInf _ = True"
| "num_le _ PosInf = True"
| "num_le (Fin a) (Fin b) = (a \<le> b)"
| "num_le _ _ = False"

fun signum :: "jsnum \<Rightarrow> int" where
  "signum NaN = 0"
| "signum PosInf = 1"
| "signum NegInf = - 1"
| "signum (Fin q) = (if q < 0 then - 1 else if q = 0 then 0 else 1)"

text \<open>\<^verbatim>\<open>a * b\<close> on numbers.\<close>

fun numTimes :: "jsnum \<Rightarrow> jsnum \<Rightarrow> jsnum" where
  "numTimes NaN _ = NaN"
| "numTimes _ NaN = NaN"
| "numTimes (Fin a) (Fin b) = Fin (a * b)"
| "numTimes a b =
     (if signum a * signum b = 0 then NaN else if 0 < signum a * signum b then PosInf else NegInf)"

text \<open>The conversion of an operand of \<^verbatim>\<open>*\<close> or \<^verbatim>\<open>>\<close> to a number.\<close>

definition ToNumber :: "host \<Rightarrow> jsval \<Rightarrow> jsnum" where
  "ToNumber h v = (case v of JNum n \<Rightarrow> n | _ \<Rightarrow> coerceNumber h v)"

section \<open>Documents and flats\<close>

text \<open>Reading a property of an object: \<^verbatim>\<open>undefined\<close> when the object has none of
  that name.\<close>

definition getField :: "(string \<times> jsval) list \<Rightarrow> string \<Rightarrow> jsval" where
  "getField fs k = (case map_of fs k of None \<Rightarrow> JUndefined | Some v \<Rightarrow> v)"

text \<open>\<^verbatim>\<open>{ id: doc.id, ...doc.data() }\<close>: the document's fields, and its id under \<^verbatim>\<open>id\<close>
  unless the document has a field of that name (the spread comes last and wins).\<close>

definition toFlat :: "docSnap \<Rightarrow> (string \<times> jsval) list" where
  "toFlat d = snap_data d @ [(''id'', JStr (snap_id d))]"

section \<open>Configuration and state of the page script\<close>

definition flatsPerPage :: nat where
  "flatsPerPage = 6"

definition skeletonCount :: nat where
  "skeletonCount = 6"

definition exchangeRates :: "(string \<times> rat) list" where
  "exchangeRates =
     [(''USD'', 1), (''EUR'', 92 / 100), (''GBP'', 79 / 100), (''CAD'', 136 / 100),
      (''AUD'', 152 / 100), (''JPY'', 156), (''INR'', 833 / 10), (''BRL'', 508 / 100),
      (''ZAR'', 185 / 10), (''NZD'', 163 / 100), (''CHF'', 90 / 100), (''SGD'', 135 / 100),
      (''HKD'', 78 / 10), (''SEK'', 108 / 10), (''NOK'', 108 / 10), (''DKK'', 68 / 10),
      (''PLN'', 39 / 10), (''MXN'', 166 / 10), (''AED'', 367 / 100), (''SAR'', 375 / 100),
      (''RUB'', 89), (''TRY'', 322 / 10), (''THB'', 366 / 10), (''IDR'', 16200),
      (''MYR'', 47 / 10), (''PHP'', 585 / 10), (''VND'', 25400), (''KRW'', 1360),
      (''EGP'', 477 / 10)]"

text \<open>\<^verbatim>\<open>currentFilters\<close>: the price bounds are the texts of the two inputs.\<close>

record filters =
  offerType :: string
  flatType :: string
  minPrice :: string
  maxPrice :: string
  sortBy :: string
  searchTerm :: string
  showFavorites :: bool

text \<open>A rendered card, as far as the model follows it: the id attribute, the price text,
  the offer label and the amenity labels.  The heart icon of a card is not modelled, so
  \<^verbatim>\<open>updateFavoriteIconsInDisplay\<close> and \<^verbatim>\<open>updateFavoritesFilterButtonState\<close>, which
  change nothing else, have no counterpart here.\<close>

record card =
  card_flat_id :: jsval
  card_price :: string
  card_offer :: string
  card_amenities :: "string list"

datatype node = Skeleton | Card card

text \<open>
  The globals of the script and the part of the page it writes to:
  \<^item> \<open>favorites\<close> is taken to be an array of strings, \<open>stored_favorites\<close> is the entry
    \<^verbatim>\<open>favorites\<close> of \<^verbatim>\<open>localStorage\<close> (\<open>None\<close> when there is none);
  \<^item> \<open>flatsListInDom\<close> says whether the page has the element \<^verbatim>\<open>flatsList\<close>; the other
    elements the script dereferences without a check (\<^verbatim>\<open>loadMoreBtn\<close>,
    \<^verbatim>\<open>no-flats-message\<close>, the toast container) are taken to exist;
  \<^item> \<open>flatsList\<close> are the children of that element, \<open>toasts\<close> the notifications shown so
    far, each with its kind;
  \<^item> \<open>issued\<close> is the log of the queries handed to the store, oldest first;
  \<^item> \<open>elements_currencySwitcher\<close> is the property \<^verbatim>\<open>currencySwitcher\<close> of the object
    \<^verbatim>\<open>elements\<close>: \<open>None\<close> when it is \<^verbatim>\<open>undefined\<close>, else the value of the element it refers
    to.  \<^verbatim>\<open>elements\<close> starts empty, and \<^verbatim>\<open>initializeElements\<close>, which fills it, assigns
    no such property; nothing else in the script does.
  An asynchronous function runs here from its call to its end in one step: two calls do
  not interleave.
\<close>

record state =
  allFlatsData :: "(string \<times> jsval) list list"
  displayedFlatsCount :: nat
  lastVisibleFlat :: "docSnap option"
  favorites :: "string list"
  currentCurrency :: string
  currentFilters :: filters
  stored_favorites :: "string list option"
  flatsListInDom :: bool
  flatsList :: "node list"
  loadMoreBtn_hidden :: bool
  noFlatsMessage_hidden :: bool
  noFlatsMessage_text :: string
  toasts :: "(string \<times> string) list"
  issued :: "clause list list"
  elements_currencySwitcher :: "string option"

section \<open>Rendering a card\<close>

text \<open>\<^verbatim>\<open>toUpperCase\<close> on one character, for the ASCII letters.\<close>

definition toUpperCase :: "char \<Rightarrow> char" where
  "toUpperCase c =
     (case map_of (zip ''abcdefghijklmnopqrstuvwxyz'' ''ABCDEFGHIJKLMNOPQRSTUVWXYZ'') c of
        None \<Rightarrow> c
      | Some u \<Rightarrow> u)"

text \<open>\<^verbatim>\<open>capitalizeFirstLetter\<close>: a truthy value that is not a string has no \<^verbatim>\<open>charAt\<close>.\<close>

definition capitalizeFirstLetter :: "jsval \<Rightarrow> error + string" where
  "capitalizeFirstLetter v =
     (if \<not> truthy v then Inr []
      else case v of
             JStr s \<Rightarrow> (case s of [] \<Rightarrow> Inr [] | c # r \<Rightarrow> Inr (toUpperCase c # r))
           | _ \<Rightarrow> Inl TypeError)"

text \<open>\<^verbatim>\<open>formatPrice\<close> reads the global \<^verbatim>\<open>currentCurrency\<close>; here, and in
  \<^verbatim>\<open>createFlatCard\<close>, its value is the argument \<open>currency\<close>.  A currency that is not
  in the table has the rate \<^verbatim>\<open>undefined\<close>, and the product is \<open>NaN\<close>.\<close>

definition formatPrice :: "host \<Rightarrow> string \<Rightarrow> jsval \<Rightarrow> error + string" where
  "formatPrice h currency price =
     formatCurrency h currency
       (numTimes (ToNumber h price)
          (case map_of exchangeRates currency of None \<Rightarrow> NaN | Some r \<Rightarrow> Fin r))"

text \<open>The labels of \<^verbatim>\<open>parsedAmenities.map(amenity => ... amenity.toLowerCase() ...
  capitalizeFirstLetter(amenity) ...)\<close>: an amenity that is not a string has no
  \<^verbatim>\<open>toLowerCase\<close>.\<close>

fun amenityLabels :: "jsval list \<Rightarrow> error + string list" where
  "amenityLabels [] = Inr []"
| "amenityLabels (a # rest) =
     (if \<not> isString a then Inl TypeError
      else case capitalizeFirstLetter a of
             Inl e \<Rightarrow> Inl e
           | Inr l \<Rightarrow> (case amenityLabels rest of Inl e \<Rightarrow> Inl e | Inr ls \<Rightarrow> Inr (l # ls)))"

text \<open>\<^verbatim>\<open>parsedAmenities.length > 0 ? parsedAmenities.map(...) : ...\<close>, on whatever
  \<^verbatim>\<open>parseAmenities\<close> returned.\<close>

definition amenitiesMarkup :: "host \<Rightarrow> jsval \<Rightarrow> error + string list" where
  "amenitiesMarkup h parsedAmenities =
     (case parsedAmenities of
        JArr xs \<Rightarrow> amenityLabels xs
      | JStr s \<Rightarrow> if s = [] then Inr [] else Inl TypeError
      | JObj fs \<Rightarrow>
          if num_le (Fin 0) (ToNumber h (getField fs ''length''))
             \<and> ToNumber h (getField fs ''length'') \<noteq> Fin 0
          then Inl TypeError else Inr []
      | JUndefined \<Rightarrow> Inl TypeError
      | JNull \<Rightarrow> Inl TypeError
      | _ \<Rightarrow> Inr [])"

definition createFlatCard :: "host \<Rightarrow> string \<Rightarrow> (string \<times> jsval) list \<Rightarrow> error + card" where
  "createFlatCard h currency flat =
     (case parseAmenities h (orElse (getField flat ''amenities'') (JArr [])) of
        Inl e \<Rightarrow> Inl e
      | Inr parsedAmenities \<Rightarrow>
     (case formatPrice h currency (orElse (getField flat ''price'') (JNum (Fin 0))) of
        Inl e \<Rightarrow> Inl e
      | Inr priceText \<Rightarrow>
     (case capitalizeFirstLetter (orElse (getField flat ''offerType'') (JStr ''unknown'')) of
        Inl e \<Rightarrow> Inl e
      | Inr offer \<Rightarrow>
     (case amenitiesMarkup h parsedAmenities of
        Inl e \<Rightarrow> Inl e
      | Inr labels \<Rightarrow>
          Inr \<lparr>card_flat_id = orElse (getField flat ''id'') (JStr ''unknown''),
               card_price = priceText, card_offer = offer, card_amenities = labels\<rparr>))))"

text \<open>\<^verbatim>\<open>flats.forEach(flat => elements.flatsList.appendChild(createFlatCard(flat)))\<close>:
  the cards are appended one by one; an exception of \<^verbatim>\<open>createFlatCard\<close> ends the loop
  and leaves the cards appended so far.\<close>

fun appendCards :: "host \<Rightarrow> (string \<times> jsval) list list \<Rightarrow> state \<Rightarrow> state \<times> error option" where
  "appendCards h [] s = (s, None)"
| "appendCards h (flat # rest) s =
     (case createFlatCard h (currentCurrency s) flat of
        Inl e \<Rightarrow> (s, Some e)
      | Inr c \<Rightarrow> appendCards h rest (s\<lparr>flatsList := flatsList s @ [Card c]\<rparr>))"

text \<open>What the loop leaves behind, as functions of the flats alone: the cards built
  before the first exception, and that exception.\<close>

fun renderedCards :: "host \<Rightarrow> string \<Rightarrow> (string \<times> jsval) list list \<Rightarrow> card list" where
  "renderedCards h currency [] = []"
| "renderedCards h currency (flat # rest) =
     (case createFlatCard h currency flat of
        Inl e \<Rightarrow> []
      | Inr c \<Rightarrow> c # renderedCards h currency rest)"

fun renderError :: "host \<Rightarrow> string \<Rightarrow> (string \<times> jsval) list list \<Rightarrow> error option" where
  "renderError h currency [] = None"
| "renderError h currency (flat # rest) =
     (case createFlatCard h currency flat of
        Inl e \<Rightarrow> Some e
      | Inr c \<Rightarrow> renderError h currency rest)"

section \<open>\<^verbatim>\<open>fetchFlats\<close> and the event handlers\<close>

definition showToast :: "string \<Rightarrow> string \<Rightarrow> state \<Rightarrow> state" where
  "showToast message kind s = s\<lparr>toasts := toasts s @ [(message, kind)]\<rparr>"

definition showSkeletons :: "nat \<Rightarrow> state \<Rightarrow> state" where
  "showSkeletons count s = s\<lparr>flatsList := replicate count Skeleton\<rparr>"

text \<open>The \<^verbatim>\<open>orderBy\<close> of the query, from \<^verbatim>\<open>currentFilters.sortBy\<close>.\<close>

definition orderClause :: "string \<Rightarrow> clause" where
  "orderClause sb =
     (if sb = ''price-asc'' then OrderBy (JStr ''price'') (JStr ''asc'')
      else if sb = ''price-desc'' then OrderBy (JStr ''price'') (JStr ''desc'')
      else if sb = ''area-asc'' then OrderBy (JStr ''area'') (JStr ''asc'')
      else if sb = ''area-desc'' then OrderBy (JStr ''area'') (JStr ''desc'')
      else OrderBy (JStr ''price'') (JStr ''desc''))"

text \<open>The query \<^verbatim>\<open>fetchFlats\<close> composes in \<^verbatim>\<open>flatsQueryRef\<close>, from the filters, the
  favorites and the cursor.  A price bound is added when its text is truthy, that is,
  not empty.\<close>

definition flatsQueryRef :: "filters \<Rightarrow> string list \<Rightarrow> docSnap option \<Rightarrow> clause list" where
  "flatsQueryRef f favs cursor =
     (if offerType f \<noteq> ''all'' then [Where (Field ''offerType'') Eq (JStr (offerType f))] else [])
     @ (if flatType f \<noteq> ''all'' then [Where (Field ''type'') Eq (JStr (flatType f))] else [])
     @ (if minPrice f \<noteq> [] then [Where (Field ''price'') Ge (JNum (parseFloat (minPrice f)))] else [])
     @ (if maxPrice f \<noteq> [] then [Where (Field ''price'') Le (JNum (parseFloat (maxPrice f)))] else [])
     @ (if showFavorites f \<and> favs \<noteq> [] then [Where DocumentId In (JArr (map JStr favs))] else [])
     @ [orderClause (sortBy f)]
     @ (case cursor of None \<Rightarrow> [] | Some d \<Rightarrow> [StartAfter d])
     @ [Limit flatsPerPage]"

text \<open>The \<^verbatim>\<open>catch\<close> block of \<^verbatim>\<open>fetchFlats\<close>.\<close>

definition fetchFailed :: "state \<Rightarrow> state" where
  "fetchFailed s =
     (showToast ''Error loading apartments.'' ''error'' s)
       \<lparr>flatsList := [], noFlatsMessage_hidden := False,
        noFlatsMessage_text := ''Error loading apartments.''\<rparr>"

text \<open>The block \<^verbatim>\<open>if (reset) { ... }\<close> of \<^verbatim>\<open>fetchFlats\<close>.\<close>

definition resetPagination :: "state \<Rightarrow> state" where
  "resetPagination s =
     s\<lparr>allFlatsData := [], displayedFlatsCount := 0, lastVisibleFlat := None, flatsList := [],
       loadMoreBtn_hidden := True, noFlatsMessage_hidden := True\<rparr>"

text \<open>\<^verbatim>\<open>fetchFlats(reset)\<close>.  The script tests for the empty favorites after it has
  built the four filters; the builders being pure, the model tests first and composes
  the query in one piece.  The query is logged in \<open>issued\<close> when it is handed to the
  store.  An exception of a card is caught like one of the store.\<close>

definition fetchFlats :: "host \<Rightarrow> bool \<Rightarrow> state \<Rightarrow> state" where
  "fetchFlats h reset s0 =
     (if \<not> flatsListInDom s0 then
        showToast ''Error: Apartment display area not found. Please refresh the page.'' ''error'' s0
      else
        let s1 = showSkeletons skeletonCount s0;
            s2 = (if reset then resetPagination s1 else s1)
        in if showFavorites (currentFilters s2) \<and> favorites s2 = [] then
             s2\<lparr>flatsList := [], noFlatsMessage_hidden := False,
                noFlatsMessage_text := ''No favorite apartments found.'',
                loadMoreBtn_hidden := True\<rparr>
           else
             let q = flatsQueryRef (currentFilters s2) (favorites s2) (lastVisibleFlat s2);
                 s3 = s2\<lparr>issued := issued s2 @ [q]\<rparr>
             in case getDocs h q of
                  Inl e \<Rightarrow> fetchFailed s3
                | Inr docs \<Rightarrow>
                    if map toFlat docs \<noteq> [] then
                      (case appendCards h (map toFlat docs)
                              (s3\<lparr>allFlatsData := allFlatsData s3 @ map toFlat docs,
                                  flatsList := []\<rparr>) of
                         (s4, Some e) \<Rightarrow> fetchFailed s4
                       | (s4, None) \<Rightarrow>
                           s4\<lparr>lastVisibleFlat := Some (last docs),
                              displayedFlatsCount := displayedFlatsCount s4 + length (map toFlat docs),
                              loadMoreBtn_hidden := (length (map toFlat docs) \<noteq> flatsPerPage),
                              noFlatsMessage_hidden := True\<rparr>)
                    else
                      (if reset then
                         s3\<lparr>flatsList := [], noFlatsMessage_hidden := False,
                            noFlatsMessage_text := ''No apartments found matching your criteria.'',
                            loadMoreBtn_hidden := True\<rparr>
                       else
                         (showToast ''No more apartments to load.'' ''info'' (s3\<lparr>flatsList := []\<rparr>))
                           \<lparr>loadMoreBtn_hidden := True\<rparr>))"

text \<open>Two names for the statements about \<^verbatim>\<open>fetchFlats\<close>: the state in which a call
  composes its query (skeletons shown, pagination reset when asked), and the query it
  composes there.\<close>

definition composing :: "bool \<Rightarrow> state \<Rightarrow> state" where
  "composing reset s =
     (if reset then resetPagination (showSkeletons skeletonCount s)
      else showSkeletons skeletonCount s)"

definition composedQuery :: "bool \<Rightarrow> state \<Rightarrow> clause list" where
  "composedQuery reset s =
     flatsQueryRef (currentFilters s) (favorites s) (if reset then None else lastVisibleFlat s)"

text \<open>The values of the filter controls when \<^verbatim>\<open>handleApplyFilters\<close> reads them.\<close>

record filterControls =
  offerTypeFilter :: string
  flatTypeFilter :: string
  minPriceFilter :: string
  maxPriceFilter :: string
  sortByFilter :: string
  favoriteToggleButton :: bool

text \<open>\<^verbatim>\<open>handleApplyFilters\<close>; \<open>None\<close> stands for a page where one of the controls is
  missing.\<close>

definition handleApplyFilters :: "host \<Rightarrow> filterControls option \<Rightarrow> state \<Rightarrow> state" where
  "handleApplyFilters h controls s =
     (case controls of
        None \<Rightarrow> showToast ''Error: Filter controls are missing.'' ''error'' s
      | Some ui \<Rightarrow>
          fetchFlats h True
            (s\<lparr>currentFilters := (currentFilters s)
                 \<lparr>offerType := offerTypeFilter ui, flatType := flatTypeFilter ui,
                  minPrice := minPriceFilter ui, maxPrice := maxPriceFilter ui,
                  sortBy := sortByFilter ui, showFavorites := favoriteToggleButton ui\<rparr>\<rparr>))"

definition handleLoadMore :: "host \<Rightarrow> state \<Rightarrow> state" where
  "handleLoadMore h s = fetchFlats h False s"

text \<open>\<^verbatim>\<open>handleCurrencyChange\<close>.  Its first statement reads
  \<^verbatim>\<open>elements.currencySwitcher.value\<close>, a TypeError when the property is undefined.  The
  handler has no \<^verbatim>\<open>try\<close>: it ends with the exception, and after an exception of a card
  the cards appended so far stay.\<close>

definition handleCurrencyChange :: "host \<Rightarrow> state \<Rightarrow> state \<times> error option" where
  "handleCurrencyChange h s =
     (case elements_currencySwitcher s of
        None \<Rightarrow> (s, Some TypeError)
      | Some v \<Rightarrow> appendCards h (allFlatsData s) (s\<lparr>currentCurrency := v, flatsList := []\<rparr>))"

text \<open>The callback of \<^verbatim>\<open>onAuthStateChanged\<close> in \<^verbatim>\<open>initialize\<close>, for \<^verbatim>\<open>user\<close> null: the
  \<^verbatim>\<open>else\<close> branch, which empties the favorites and removes their cache entry, and
  \<^verbatim>\<open>fetchFlats(true)\<close> after it.  The elements the branch dereferences are taken to
  exist; \<^verbatim>\<open>fetchApartmentDetails\<close> and \<^verbatim>\<open>displayRecentlyViewed\<close> write to none of the
  state modelled here.  (The branch of a signed-in user starts \<^verbatim>\<open>loadFavorites\<close> without
  awaiting it, which interleaves with the fetch; it is not modelled.)\<close>

definition authStateSignedOut :: "host \<Rightarrow> state \<Rightarrow> state" where
  "authStateSignedOut h s = fetchFlats h True (s\<lparr>favorites := [], stored_favorites := None\<rparr>)"

section \<open>The REST relay: \<^verbatim>\<open>GET /api/flats\<close>\<close>

text \<open>The query parameters the handler reads from \<^verbatim>\<open>req.query\<close>: each is absent or a
  text.  (A parameter given several times arrives as an array; that is outside this
  model.)\<close>

record flatsRequest =
  q_offerType :: "string option"
  q_flatType :: "string option"
  q_minPrice :: "string option"
  q_maxPrice :: "string option"
  q_sortBy :: "string option"

text \<open>\<^verbatim>\<open>s.split(c)\<close> for a one-character separator: the pieces between the separators,
  empty pieces included.\<close>

fun js_split :: "char \<Rightarrow> string \<Rightarrow> string list" where
  "js_split c [] = [[]]"
| "js_split c (x # xs) =
     (if x = c then [] # js_split c xs
      else case js_split c xs of [] \<Rightarrow> [[x]] | w # ws \<Rightarrow> (x # w) # ws)"

text \<open>Reading an element of an array by a destructuring pattern: \<^verbatim>\<open>undefined\<close> beyond
  the end.\<close>

definition element :: "string list \<Rightarrow> nat \<Rightarrow> jsval" where
  "element xs i = (if i < length xs then JStr (xs ! i) else JUndefined)"

text \<open>\<^verbatim>\<open>const [field, direction] = sortBy.includes('-') ? sortBy.split('-') : [sortBy, 'asc'];
  query = query.orderBy(field, direction);\<close>\<close>

definition relayOrder :: "string \<Rightarrow> clause" where
  "relayOrder sb =
     (let parts = (if CHR ''-'' \<in> set sb then js_split (CHR ''-'') sb else [sb, ''asc''])
      in OrderBy (element parts 0) (element parts 1))"

text \<open>The query the handler composes; a parameter counts when it is truthy: present and
  not empty.\<close>

definition relayQuery :: "flatsRequest \<Rightarrow> clause list" where
  "relayQuery r =
     (case q_offerType r of
        None \<Rightarrow> []
      | Some v \<Rightarrow> if v \<noteq> [] \<and> v \<noteq> ''all'' then [Where (Field ''offerType'') Eq (JStr v)] else [])
     @ (case q_flatType r of
          None \<Rightarrow> []
        | Some v \<Rightarrow> if v \<noteq> [] \<and> v \<noteq> ''all'' then [Where (Field ''type'') Eq (JStr v)] else [])
     @ (case q_minPrice r of
          None \<Rightarrow> []
        | Some v \<Rightarrow> if v \<noteq> [] then [Where (Field ''price'') Ge (JNum (parseFloat v))] else [])
     @ (case q_maxPrice r of
          None \<Rightarrow> []
        | Some v \<Rightarrow> if v \<noteq> [] then [Where (Field ''price'') Le (JNum (parseFloat v))] else [])
     @ (case q_sortBy r of
          None \<Rightarrow> []
        | Some v \<Rightarrow> if v \<noteq> [] then [relayOrder v] else [])"

datatype responseBody = FlatsBody "(string \<times> jsval) list list" | ErrorBody string

record response =
  res_status :: nat
  res_body :: responseBody

definition apiFlats :: "host \<Rightarrow> flatsRequest \<Rightarrow> response" where
  "apiFlats h r =
     (case getDocs h (relayQuery r) of
        Inl e \<Rightarrow> \<lparr>res_status = 500, res_body = ErrorBody ''Failed to fetch apartments''\<rparr>
      | Inr docs \<Rightarrow> \<lparr>res_status = 200, res_body = FlatsBody (map toFlat docs)\<rparr>)"

text \<open>The text of a \<^verbatim>\<open>sortBy\<close> value before its first hyphen, and the text after it.\<close>

definition upToHyphen :: "string \<Rightarrow> string" where
  "upToHyphen sb = takeWhile (\<lambda>c. c \<noteq> CHR ''-'') sb"

definition pastHyphen :: "string \<Rightarrow> string" where
  "pastHyphen sb = drop 1 (dropWhile (\<lambda>c. c \<noteq> CHR ''-'') sb)"

text \<open>An ordering clause, as opposed to a filter, a cursor or a limit.\<close>

fun isOrderBy :: "clause \<Rightarrow> bool" where
  "isOrderBy (OrderBy _ _) = True"
| "isOrderBy _ = False"

section \<open>What the store's filters mean\<close>

text \<open>
  When a document satisfies a filter of a query: equality of a field with a value, a
  number field at least or at most a bound, the document id among the listed ids.  The
  other clauses (ordering, cursor, limit) select nothing by themselves.
\<close>

fun matches :: "clause \<Rightarrow> docSnap \<Rightarrow> bool" where
  "matches (Where (Field f) Eq v) d = (getField (snap_data d) f = v)"
| "matches (Where (Field f) Ge (JNum b)) d =
     (case getField (snap_data d) f of JNum a \<Rightarrow> num_le b a | _ \<Rightarrow> False)"
| "matches (Where (Field f) Le (JNum b)) d =
     (case getField (snap_data d) f of JNum a \<Rightarrow> num_le a b | _ \<Rightarrow> False)"
| "matches (Where DocumentId In (JArr ids)) d = (JStr (snap_id d) \<in> set ids)"
| "matches _ d = True"

text \<open>The store keeps to the filters: every document of an answer satisfies every filter
  of the query.\<close>

definition honoursFilters :: "host \<Rightarrow> bool" where
  "honoursFilters h =
     (\<forall>q docs. getDocs h q = Inr docs \<longrightarrow> (\<forall>d \<in> set docs. \<forall>c \<in> set q. matches c d))"

text \<open>A flat satisfies every active predicate of the filters: the offer type and the flat
  type when they are not \<^verbatim>\<open>all\<close>, the price bounds when their texts are not empty.\<close>

definition passesFilters :: "filters \<Rightarrow> (string \<times> jsval) list \<Rightarrow> bool" where
  "passesFilters f u =
     ((offerType f \<noteq> ''all'' \<longrightarrow> getField u ''offerType'' = JStr (offerType f))
      \<and> (flatType f \<noteq> ''all'' \<longrightarrow> getField u ''type'' = JStr (flatType f))
      \<and> (minPrice f \<noteq> [] \<longrightarrow>
            (case getField u ''price'' of JNum p \<Rightarrow> num_le (parseFloat (minPrice f)) p | _ \<Rightarrow> False))
      \<and> (maxPrice f \<noteq> [] \<longrightarrow>
            (case getField u ''price'' of JNum p \<Rightarrow> num_le p (parseFloat (maxPrice f)) | _ \<Rightarrow> False)))"

section \<open>Sample data\<close>

text \<open>A small collection, and a host over it that answers a query with the documents
  that satisfy its filters, in the order of the collection, after the cursor and up to
  the limit.  Its \<^verbatim>\<open>JSON.parse\<close> knows one text and its currency format a few amounts.
  The first flat stores its amenities as a serialized list of a number, which
  \<^verbatim>\<open>createFlatCard\<close> cannot label.\<close>

definition flatA :: docSnap where
  "flatA = \<lparr>snap_id = ''a1'',
            snap_data = [(''offerType'', JStr ''rent''), (''type'', JStr ''studio''),
                         (''price'', JNum (Fin 1500)), (''amenities'', JArr [JStr ''[7]''])]\<rparr>"

definition flatB :: docSnap where
  "flatB = \<lparr>snap_id = ''b2'',
            snap_data = [(''offerType'', JStr ''sale''), (''type'', JStr ''studio''),
                         (''price'', JNum (Fin 250000)), (''amenities'', JArr [JStr ''gym''])]\<rparr>"

definition flatC :: docSnap where
  "flatC = \<lparr>snap_id = ''c3'',
            snap_data = [(''offerType'', JStr ''rent''), (''type'', JStr ''loft''),
                         (''price'', JNum (Fin 900)), (''amenities'', JArr [JStr ''pool'', JNull])]\<rparr>"

fun limitOf :: "clause list \<Rightarrow> nat option" where
  "limitOf [] = None"
| "limitOf (Limit n # q) = Some n"
| "limitOf (_ # q) = limitOf q"

fun cursorOf :: "clause list \<Rightarrow> docSnap option" where
  "cursorOf [] = None"
| "cursorOf (StartAfter d # q) = Some d"
| "cursorOf (_ # q) = cursorOf q"

definition answer :: "docSnap list \<Rightarrow> clause list \<Rightarrow> docSnap list" where
  "answer coll q =
     (let hits = filter (\<lambda>d. list_all (\<lambda>c. matches c d) q) coll;
          later = (case cursorOf q of
                     None \<Rightarrow> hits
                   | Some d \<Rightarrow> drop 1 (dropWhile (\<lambda>x. snap_id x \<noteq> snap_id d) hits))
      in case limitOf q of None \<Rightarrow> later | Some n \<Rightarrow> take n later)"

text \<open>The amounts the sample currency format knows how to write.\<close>

definition amountTexts :: "(rat \<times> string) list" where
  "amountTexts = [(250000, ''250,000''), (230000, ''230,000''), (1500, ''1,500''), (900, ''900'')]"

definition sampleHost :: host where
  "sampleHost =
     \<lparr>JSON_parse = (\<lambda>x. if x = JStr ''[7]'' then Inr (JArr [JNum (Fin 7)]) else Inl SyntaxError),
      coerceNumber = (\<lambda>v. NaN),
      formatCurrency =
        (\<lambda>c x. case x of
                  Fin q \<Rightarrow> (case map_of amountTexts q of
                              None \<Rightarrow> Inl RangeError
                            | Some t \<Rightarrow> Inr (c @ '' '' @ t))
                | _ \<Rightarrow> Inr ''NaN''),
      getDocs = (\<lambda>q. Inr (answer [flatA, flatB, flatC] q))\<rparr>"

text \<open>A host whose store is out of reach.\<close>

definition offlineHost :: host where
  "offlineHost = sampleHost\<lparr>getDocs := (\<lambda>q. Inl (FirebaseError ''unavailable''))\<rparr>"

text \<open>Six flats for sale, and a host whose store answers every query with the six.\<close>

definition sixFlats :: "docSnap list" where
  "sixFlats = map (\<lambda>i. flatB\<lparr>snap_id := i\<rparr>) [''s1'', ''s2'', ''s3'', ''s4'', ''s5'', ''s6'']"

definition fullPageHost :: host where
  "fullPageHost = sampleHost\<lparr>getDocs := (\<lambda>q. Inr sixFlats)\<rparr>"

text \<open>A host whose store has no flats.\<close>

definition emptyHost :: host where
  "emptyHost = sampleHost\<lparr>getDocs := (\<lambda>q. Inr [])\<rparr>"

definition initialFilters :: filters where
  "initialFilters =
     \<lparr>offerType = ''all'', flatType = ''all'', minPrice = [], maxPrice = [],
      sortBy = ''price-desc'', searchTerm = [], showFavorites = False\<rparr>"

text \<open>The state of the script when the page has loaded, nobody being signed in.\<close>

definition initialState :: state where
  "initialState =
     \<lparr>allFlatsData = [], displayedFlatsCount = 0, lastVisibleFlat = None, favorites = [],
      currentCurrency = ''USD'', currentFilters = initialFilters, stored_favorites = None,
      flatsListInDom = True, flatsList = [], loadMoreBtn_hidden = True,
      noFlatsMessage_hidden = True, noFlatsMessage_text = [], toasts = [], issued = [],
      elements_currencySwitcher = None\<rparr>"

text \<open>The filter controls as the page shows them first, and with a choice made.\<close>

definition defaultControls :: filterControls where
  "defaultControls =
     \<lparr>offerTypeFilter = ''all'', flatTypeFilter = ''all'', minPriceFilter = [],
      maxPriceFilter = [], sortByFilter = ''price-desc'', favoriteToggleButton = False\<rparr>"

definition saleOnly :: filterControls where
  "saleOnly = defaultControls\<lparr>offerTypeFilter := ''sale''\<rparr>"

text \<open>The controls with a lower price bound that is no number.\<close>

definition badMinimum :: filterControls where
  "badMinimum = defaultControls\<lparr>minPriceFilter := ''abc''\<rparr>"

text \<open>The page after a first fetch that brought a full page: six flats shown, the
  load-more button offered.\<close>

definition browsing :: state where
  "browsing = fetchFlats fullPageHost True initialState"

text \<open>The state that page would be in if \<^verbatim>\<open>elements.currencySwitcher\<close> referred to a
  switcher set to euros.\<close>

definition browsingWithSwitcher :: state where
  "browsingWithSwitcher = browsing\<lparr>elements_currencySwitcher := Some ''EUR''\<rparr>"

text \<open>The page with the offer type of the filters set to sale.\<close>

definition forSale :: state where
  "forSale = initialState\<lparr>currentFilters := initialFilters\<lparr>offerType := ''sale''\<rparr>\<rparr>"

text \<open>That page with the favorites filter switched on, no favorite being chosen.\<close>

definition favoritesOnly :: state where
  "favoritesOnly = browsing\<lparr>currentFilters := (currentFilters browsing)\<lparr>showFavorites := True\<rparr>\<rparr>"

text \<open>A signed-in session with one favorite, mirrored in the local cache.\<close>

definition signedIn :: state where
  "signedIn = initialState\<lparr>favorites := [''a1''], stored_favorites := Some [''a1'']\<rparr>"

text \<open>A request whose \<^verbatim>\<open>sortBy\<close> has two hyphens, and one with a plain field name.\<close>

definition twoHyphens :: flatsRequest where
  "twoHyphens =
     \<lparr>q_offerType = None, q_flatType = None, q_minPrice = None, q_maxPrice = None,
      q_sortBy = Some ''price-desc-x''\<rparr>"

definition plainSort :: flatsRequest where
  "plainSort =
     \<lparr>q_offerType = Some ''rent'', q_flatType = None, q_minPrice = None, q_maxPrice = None,
      q_sortBy = Some ''area''\<rparr>"

section \<open>The card loop and the shape of a fetch\<close>

lemma appendCards_eq:
  "appendCards h fl s =
     (s\<lparr>flatsList := flatsList s @ map Card (renderedCards h (currentCurrency s) fl)\<rparr>,
      renderError h (currentCurrency s) fl)"
  by (induction fl arbitrary: s) (simp_all split: sum.splits)

lemma composing_simps:
  "allFlatsData (composing reset s) = (if reset then [] else allFlatsData s)"
  "displayedFlatsCount (composing reset s) = (if reset then 0 else displayedFlatsCount s)"
  "lastVisibleFlat (composing reset s) = (if reset then None else lastVisibleFlat s)"
  "favorites (composing reset s) = favorites s"
  "currentCurrency (composing reset s) = currentCurrency s"
  "currentFilters (composing reset s) = currentFilters s"
  "stored_favorites (composing reset s) = stored_favorites s"
  "flatsListInDom (composing reset s) = flatsListInDom s"
  "toasts (composing reset s) = toasts s"
  "issued (composing reset s) = issued s"
  "elements_currencySwitcher (composing reset s) = elements_currencySwitcher s"
  by (simp_all add: composing_def resetPagination_def showSkeletons_def)

lemma fetchFlats_unfold:
  "fetchFlats h reset s =
     (if \<not> flatsListInDom s then
        showToast ''Error: Apartment display area not found. Please refresh the page.'' ''error'' s
      else if showFavorites (currentFilters s) \<and> favorites s = [] then
        (composing reset s)\<lparr>flatsList := [], noFlatsMessage_hidden := False,
           noFlatsMessage_text := ''No favorite apartments found.'', loadMoreBtn_hidden := True\<rparr>
      else
        case getDocs h (composedQuery reset s) of
          Inl e \<Rightarrow> fetchFailed ((composing reset s)\<lparr>issued := issued s @ [composedQuery reset s]\<rparr>)
        | Inr docs \<Rightarrow>
            if docs = [] then
              (if reset then
                 (composing reset s)\<lparr>issued := issued s @ [composedQuery reset s], flatsList := [],
                    noFlatsMessage_hidden := False,
                    noFlatsMessage_text := ''No apartments found matching your criteria.'',
                    loadMoreBtn_hidden := True\<rparr>
               else
                 (showToast ''No more apartments to load.'' ''info''
                    ((composing reset s)\<lparr>issued := issued s @ [composedQuery reset s],
                       flatsList := []\<rparr>))
                   \<lparr>loadMoreBtn_hidden := True\<rparr>)
            else if renderError h (currentCurrency s) (map toFlat docs) = None then
              (composing reset s)\<lparr>issued := issued s @ [composedQuery reset s],
                 allFlatsData := allFlatsData (composing reset s) @ map toFlat docs,
                 flatsList := map Card (renderedCards h (currentCurrency s) (map toFlat docs)),
                 lastVisibleFlat := Some (last docs),
                 displayedFlatsCount := displayedFlatsCount (composing reset s) + length docs,
                 loadMoreBtn_hidden := (length docs \<noteq> flatsPerPage),
                 noFlatsMessage_hidden := True\<rparr>
            else
              fetchFailed ((composing reset s)\<lparr>issued := issued s @ [composedQuery reset s],
                 allFlatsData := allFlatsData (composing reset s) @ map toFlat docs,
                 flatsList := map Card (renderedCards h (currentCurrency s) (map toFlat docs))\<rparr>))"
proof -
  let ?b = "composing reset s"
  let ?q = "composedQuery reset s"
  have q: "flatsQueryRef (currentFilters ?b) (favorites ?b) (lastVisibleFlat ?b) = ?q"
    by (simp add: composing_simps composedQuery_def)
  show ?thesis
    unfolding fetchFlats_def Let_def composing_def [symmetric] q appendCards_eq
    by (auto simp: composing_simps split: sum.splits option.splits)
qed

lemmas fetch_simps = fetchFlats_unfold composing_simps showToast_def fetchFailed_def

section \<open>Stored amenities are read without an exception\<close>

lemma isSerialized_total: "isSerialized x = Inr (case x of JStr s \<Rightarrow> bracketed s | _ \<Rightarrow> False)"
  by (cases x) (auto simp: isSerialized_def startsWith_def endsWith_def bracketed_def)

lemma parseAmenities_string:
  "parseAmenities h (JStr s) = (if bracketed s then parseOrEmpty h (JStr s) else Inr (JArr []))"
  by (auto simp: parseAmenities_def isSerialized_total bracketed_def)

lemma parseAmenities_array:
  "parseAmenities h (JArr items) =
     (case serializedText (JArr items) of
        Some s \<Rightarrow> parseOrEmpty h (JStr s)
      | None \<Rightarrow> Inr (JArr (filter isString items)))"
proof (cases items)
  case Nil
  then show ?thesis by (simp add: parseAmenities_def)
next
  case (Cons x rest)
  show ?thesis
  proof (cases rest)
    case Nil
    then show ?thesis
      using Cons by (cases x) (simp_all add: parseAmenities_def isSerialized_total)
  next
    case (Cons y others)
    then show ?thesis
      using \<open>items = x # rest\<close> by (cases x) (simp_all add: parseAmenities_def)
  qed
qed

lemma parseOrEmpty_list:
  assumes "parsesArrays h" "bracketed s"
  shows "\<exists>xs. parseOrEmpty h (JStr s) = Inr (JArr xs)
           \<and> (\<forall>e. JSON_parse h (JStr s) = Inl e \<longrightarrow> xs = [])"
proof (cases "JSON_parse h (JStr s)")
  case (Inl e)
  then show ?thesis by (simp add: parseOrEmpty_def)
next
  case (Inr v)
  with assms obtain xs where "v = JArr xs"
    unfolding parsesArrays_def by blast
  with Inr show ?thesis by (simp add: parseOrEmpty_def)
qed

text \<open>
  Claim C9.  Whatever the stored amenities value is (absent, a sequence, a sequence
  wrapping one serialized string, a single serialized string, or anything else),
  \<^verbatim>\<open>parseAmenities\<close> returns a list and raises nothing.  The list is empty when the value
  is falsy, when it is neither a sequence nor a serialized string, and when the parse of
  the serialized string fails; a sequence that wraps no serialized string is returned
  with its strings only.
\<close>

theorem parseAmenities_returns_list:
  assumes "parsesArrays h"
  shows "\<exists>xs. parseAmenities h a = Inr (JArr xs)
           \<and> (\<not> truthy a \<longrightarrow> xs = [])
           \<and> ((\<forall>items. a \<noteq> JArr items) \<and> serializedText a = None \<longrightarrow> xs = [])
           \<and> (\<forall>s e. serializedText a = Some s \<and> JSON_parse h (JStr s) = Inl e \<longrightarrow> xs = [])
           \<and> (\<forall>items. a = JArr items \<and> serializedText a = None \<longrightarrow> xs = filter isString items)"
proof (cases a)
  case (JStr s)
  show ?thesis
  proof (cases "bracketed s")
    case True
    from parseOrEmpty_list [OF assms True] obtain xs where
      "parseOrEmpty h (JStr s) = Inr (JArr xs)" "\<forall>e. JSON_parse h (JStr s) = Inl e \<longrightarrow> xs = []"
      by blast
    then show ?thesis
      using JStr True by (intro exI [of _ xs]) (auto simp: parseAmenities_string bracketed_def)
  next
    case False
    then show ?thesis
      using JStr by (intro exI [of _ "[]"]) (simp add: parseAmenities_string)
  qed
next
  case (JArr items)
  show ?thesis
  proof (cases "serializedText (JArr items)")
    case None
    then show ?thesis
      using JArr by (intro exI [of _ "filter isString items"]) (simp add: parseAmenities_array)
  next
    case (Some s)
    then have br: "bracketed s" and it: "items = [JStr s]"
      by (auto elim!: serializedText.elims split: if_splits)
    from parseOrEmpty_list [OF assms br] obtain xs where
      "parseOrEmpty h (JStr s) = Inr (JArr xs)" "\<forall>e. JSON_parse h (JStr s) = Inl e \<longrightarrow> xs = []"
      by blast
    then show ?thesis
      using JArr Some by (intro exI [of _ xs]) (auto simp: parseAmenities_array)
  qed
qed (simp_all add: parseAmenities_def isSerialized_total)

lemma sampleHost_parsesArrays: "parsesArrays sampleHost"
  by (auto simp: parsesArrays_def sampleHost_def split: if_splits)

theorem parseAmenities_returns_list_witness:
  "parsesArrays sampleHost
   \<and> parseAmenities sampleHost (JArr [JStr ''[x]'']) = Inr (JArr [])
   \<and> parseAmenities sampleHost (JArr [JStr ''[7]'']) = Inr (JArr [JNum (Fin 7)])"
proof -
  have h: "parsesArrays sampleHost" by (rule sampleHost_parsesArrays)
  have t: "serializedText (JArr [JStr ''[x]'']) = Some ''[x]''"
    by (simp add: bracketed_def)
  have f: "JSON_parse sampleHost (JStr ''[x]'') = Inl SyntaxError"
    by (simp add: sampleHost_def)
  from parseAmenities_returns_list [OF h, of "JArr [JStr ''[x]'']"] t f
  have "parseAmenities sampleHost (JArr [JStr ''[x]'']) = Inr (JArr [])"
    by blast
  moreover have "parseAmenities sampleHost (JArr [JStr ''[7]'']) = Inr (JArr [JNum (Fin 7)])"
    by (simp add: parseAmenities_array bracketed_def parseOrEmpty_def sampleHost_def)
  ultimately show ?thesis using h by simp
qed

section \<open>The ordering clause of the relay\<close>

lemma js_split_unfold:
  "js_split c s =
     takeWhile (\<lambda>x. x \<noteq> c) s
       # (if c \<in> set s then js_split c (drop 1 (dropWhile (\<lambda>x. x \<noteq> c) s)) else [])"
  by (induction s) (auto split: list.splits)

lemma relayOrder_plain:
  "CHR ''-'' \<notin> set sb \<Longrightarrow> relayOrder sb = OrderBy (JStr sb) (JStr ''asc'')"
  by (simp add: relayOrder_def element_def)

lemma relayOrder_hyphen:
  assumes "CHR ''-'' \<in> set sb"
  shows "relayOrder sb = OrderBy (JStr (upToHyphen sb)) (JStr (upToHyphen (pastHyphen sb)))"
proof -
  have "js_split (CHR ''-'') sb = upToHyphen sb # js_split (CHR ''-'') (pastHyphen sb)"
    using assms by (subst js_split_unfold) (simp add: upToHyphen_def pastHyphen_def)
  also have "js_split (CHR ''-'') (pastHyphen sb)
      = upToHyphen (pastHyphen sb)
        # (if CHR ''-'' \<in> set (pastHyphen sb)
           then js_split (CHR ''-'') (drop 1 (dropWhile (\<lambda>x. x \<noteq> CHR ''-'') (pastHyphen sb))) else [])"
    by (subst js_split_unfold) (simp add: upToHyphen_def)
  finally show ?thesis
    using assms by (simp add: relayOrder_def element_def)
qed

lemma relayQuery_orderings:
  "filter isOrderBy (relayQuery r) =
     (case q_sortBy r of None \<Rightarrow> [] | Some sb \<Rightarrow> if sb \<noteq> [] then [relayOrder sb] else [])"
  by (simp add: relayQuery_def relayOrder_def Let_def split: option.splits)

text \<open>
  Claim C10, as amended.  In \<^verbatim>\<open>GET /api/flats\<close>: with \<^verbatim>\<open>sortBy\<close> absent or empty the
  query has no ordering clause; with a \<^verbatim>\<open>sortBy\<close> that has no hyphen it is ordered by the
  whole value, ascending; with a hyphen, the field is the text before the first hyphen
  and the direction is the text between the first hyphen and the second (all the text
  after the first hyphen when there is no second).
\<close>

theorem relay_ordering:
  "(q_sortBy r = None \<or> q_sortBy r = Some [] \<longrightarrow> filter isOrderBy (relayQuery r) = [])
   \<and> (\<forall>sb. q_sortBy r = Some sb \<and> sb \<noteq> [] \<and> CHR ''-'' \<notin> set sb \<longrightarrow>
         filter isOrderBy (relayQuery r) = [OrderBy (JStr sb) (JStr ''asc'')])
   \<and> (\<forall>sb. q_sortBy r = Some sb \<and> CHR ''-'' \<in> set sb \<longrightarrow>
         filter isOrderBy (relayQuery r)
           = [OrderBy (JStr (upToHyphen sb)) (JStr (upToHyphen (pastHyphen sb)))])"
  by (auto simp: relayQuery_orderings relayOrder_plain relayOrder_hyphen)

theorem relay_ordering_witness:
  "filter isOrderBy (relayQuery plainSort) = [OrderBy (JStr ''area'') (JStr ''asc'')]
   \<and> filter isOrderBy (relayQuery twoHyphens) = [OrderBy (JStr ''price'') (JStr ''desc'')]"
proof -
  have a: "q_sortBy plainSort = Some ''area'' \<and> ''area'' \<noteq> [] \<and> CHR ''-'' \<notin> set ''area''"
    by (simp add: plainSort_def)
  have b: "q_sortBy twoHyphens = Some ''price-desc-x'' \<and> CHR ''-'' \<in> set ''price-desc-x''"
    by (simp add: twoHyphens_def)
  have c: "upToHyphen ''price-desc-x'' = ''price''"
    "upToHyphen (pastHyphen ''price-desc-x'') = ''desc''"
    by (simp_all add: upToHyphen_def pastHyphen_def)
  from relay_ordering [of plainSort] a
  have "filter isOrderBy (relayQuery plainSort) = [OrderBy (JStr ''area'') (JStr ''asc'')]"
    by blast
  moreover from relay_ordering [of twoHyphens] b
  have "filter isOrderBy (relayQuery twoHyphens)
      = [OrderBy (JStr (upToHyphen ''price-desc-x'')) (JStr (upToHyphen (pastHyphen ''price-desc-x'')))]"
    by blast
  ultimately show ?thesis by (simp add: c)
qed

text \<open>
  Claim C10 as stated takes the text after the first hyphen for the direction.  For
  \<^verbatim>\<open>sortBy=price-desc-x\<close> that text is \<^verbatim>\<open>desc-x\<close>, and the query is ordered by
  \<^verbatim>\<open>desc\<close>.
\<close>

theorem relay_direction_counterexample:
  "q_sortBy twoHyphens = Some ''price-desc-x''
   \<and> pastHyphen ''price-desc-x'' = ''desc-x''
   \<and> OrderBy (JStr (upToHyphen ''price-desc-x'')) (JStr (pastHyphen ''price-desc-x''))
       \<notin> set (relayQuery twoHyphens)
   \<and> relayQuery twoHyphens = [OrderBy (JStr ''price'') (JStr ''desc'')]"
  by (simp add: twoHyphens_def relayQuery_def relayOrder_def element_def upToHyphen_def
        pastHyphen_def)

section \<open>Favorites when the session ends\<close>

text \<open>
  Claim C8, as amended.  When the auth state becomes unauthenticated, the favorites list
  in memory is emptied and the entry of the local cache is removed, whatever they held
  and whatever the fetch that follows does.
\<close>

theorem sign_out_clears_favorites:
  "favorites (authStateSignedOut h s) = [] \<and> stored_favorites (authStateSignedOut h s) = None"
  by (simp add: authStateSignedOut_def fetch_simps split: sum.splits)

text \<open>
  Claim C8 as stated has the local cache unchanged by a sign-out.  A session with one
  cached favorite ends with no cache entry.
\<close>

theorem sign_out_counterexample:
  "stored_favorites signedIn = Some [''a1'']
   \<and> stored_favorites (authStateSignedOut sampleHost signedIn) = None
   \<and> favorites (authStateSignedOut sampleHost signedIn) = []"
  by (simp add: signedIn_def authStateSignedOut_def fetch_simps initialState_def split: sum.splits)

section \<open>The favorites filter with no favorite\<close>

text \<open>
  Claim C2.  A fetch issued while \<^verbatim>\<open>showFavorites\<close> is set and the favorites are empty
  hands no query to the store, shows an empty list, adds no record (after a reset none
  is left), shows the message that there are no favorites and hides the load-more
  button; the state it leaves does not depend on the host, so it is the same for every
  store.  The page is taken to have its list container.
\<close>

theorem no_favorites_short_circuit:
  assumes "flatsListInDom s" "showFavorites (currentFilters s)" "favorites s = []"
  shows "issued (fetchFlats h reset s) = issued s
       \<and> flatsList (fetchFlats h reset s) = []
       \<and> allFlatsData (fetchFlats h reset s) = (if reset then [] else allFlatsData s)
       \<and> \<not> noFlatsMessage_hidden (fetchFlats h reset s)
       \<and> noFlatsMessage_text (fetchFlats h reset s) = ''No favorite apartments found.''
       \<and> loadMoreBtn_hidden (fetchFlats h reset s)
       \<and> fetchFlats h reset s = fetchFlats h' reset s"
  using assms by (simp add: fetch_simps)

theorem no_favorites_short_circuit_witness:
  "flatsListInDom favoritesOnly \<and> showFavorites (currentFilters favoritesOnly)
   \<and> favorites favoritesOnly = []
   \<and> length (allFlatsData favoritesOnly) = 6
   \<and> issued (fetchFlats sampleHost True favoritesOnly) = issued favoritesOnly
   \<and> flatsList (fetchFlats sampleHost True favoritesOnly) = []
   \<and> allFlatsData (fetchFlats sampleHost True favoritesOnly) = []
   \<and> noFlatsMessage_text (fetchFlats sampleHost True favoritesOnly) = ''No favorite apartments found.''
   \<and> fetchFlats sampleHost True favoritesOnly = fetchFlats offlineHost True favoritesOnly"
proof -
  have a: "flatsListInDom favoritesOnly" "showFavorites (currentFilters favoritesOnly)"
    "favorites favoritesOnly = []" "length (allFlatsData favoritesOnly) = 6"
    by code_simp+
  note r = no_favorites_short_circuit [OF a(1-3), of sampleHost True offlineHost]
  show ?thesis using r a by auto
qed

section \<open>A fetch that fails\<close>

lemma fetchFlats_failed:
  assumes "flatsListInDom s" "\<not> (showFavorites (currentFilters s) \<and> favorites s = [])"
    and "getDocs h (composedQuery reset s) = Inl e"
  shows "fetchFlats h reset s =
           fetchFailed ((composing reset s)\<lparr>issued := issued s @ [composedQuery reset s]\<rparr>)"
  by (subst fetchFlats_unfold) (use assms in auto)

lemma fetchFlats_page:
  assumes "flatsListInDom s" "\<not> (showFavorites (currentFilters s) \<and> favorites s = [])"
    and "getDocs h (composedQuery reset s) = Inr docs"
    and "renderError h (currentCurrency s) (map toFlat docs) = None"
  shows "fetchFlats h reset s =
     (if docs = [] then
        (if reset then
           (composing reset s)\<lparr>issued := issued s @ [composedQuery reset s], flatsList := [],
              noFlatsMessage_hidden := False,
              noFlatsMessage_text := ''No apartments found matching your criteria.'',
              loadMoreBtn_hidden := True\<rparr>
         else
           (showToast ''No more apartments to load.'' ''info''
              ((composing reset s)\<lparr>issued := issued s @ [composedQuery reset s],
                 flatsList := []\<rparr>))
             \<lparr>loadMoreBtn_hidden := True\<rparr>)
      else
        (composing reset s)\<lparr>issued := issued s @ [composedQuery reset s],
           allFlatsData := allFlatsData (composing reset s) @ map toFlat docs,
           flatsList := map Card (renderedCards h (currentCurrency s) (map toFlat docs)),
           lastVisibleFlat := Some (last docs),
           displayedFlatsCount := displayedFlatsCount (composing reset s) + length docs,
           loadMoreBtn_hidden := (length docs \<noteq> flatsPerPage),
           noFlatsMessage_hidden := True\<rparr>)"
  by (subst fetchFlats_unfold) (use assms in auto)

text \<open>
  Claim C3, as amended.  When the store rejects the query of a fetch, the fetch ends: the
  records, the cursor and the count are what the call found on a continuation, and what
  its own reset left (nothing) on a reset call; no page is merged; the notification and
  the message \<^verbatim>\<open>Error loading apartments.\<close> are shown; and the query has been handed to
  the store once.
\<close>

theorem failed_fetch_keeps_records:
  assumes "flatsListInDom s" "\<not> (showFavorites (currentFilters s) \<and> favorites s = [])"
    and "getDocs h (composedQuery reset s) = Inl e"
  shows "allFlatsData (fetchFlats h reset s) = (if reset then [] else allFlatsData s)
       \<and> lastVisibleFlat (fetchFlats h reset s) = (if reset then None else lastVisibleFlat s)
       \<and> displayedFlatsCount (fetchFlats h reset s) = (if reset then 0 else displayedFlatsCount s)
       \<and> toasts (fetchFlats h reset s) = toasts s @ [(''Error loading apartments.'', ''error'')]
       \<and> \<not> noFlatsMessage_hidden (fetchFlats h reset s)
       \<and> noFlatsMessage_text (fetchFlats h reset s) = ''Error loading apartments.''
       \<and> issued (fetchFlats h reset s) = issued s @ [composedQuery reset s]"
  by (simp add: fetchFlats_failed [OF assms] composing_simps fetchFailed_def showToast_def)

lemma browsing_facts:
  "flatsListInDom browsing" "\<not> (showFavorites (currentFilters browsing) \<and> favorites browsing = [])"
  "allFlatsData browsing = map toFlat sixFlats" "lastVisibleFlat browsing = Some (last sixFlats)"
  "toasts browsing = []" "length (issued browsing) = 1" "currentCurrency browsing = ''USD''"
  "\<not> loadMoreBtn_hidden browsing" "length sixFlats = 6"
  by code_simp+

theorem failed_fetch_keeps_records_witness:
  "getDocs offlineHost (composedQuery False browsing) = Inl (FirebaseError ''unavailable'')
   \<and> allFlatsData (fetchFlats offlineHost False browsing) = map toFlat sixFlats
   \<and> lastVisibleFlat (fetchFlats offlineHost False browsing) = Some (last sixFlats)
   \<and> toasts (fetchFlats offlineHost False browsing) = [(''Error loading apartments.'', ''error'')]
   \<and> length (issued (fetchFlats offlineHost False browsing)) = 2"
proof -
  have f: "getDocs offlineHost (composedQuery False browsing) = Inl (FirebaseError ''unavailable'')"
    by (simp add: offlineHost_def)
  from failed_fetch_keeps_records [OF browsing_facts(1,2) f]
  show ?thesis using f by (simp add: browsing_facts)
qed

text \<open>
  Claim C3 as stated leaves the records as they were before the call, for a reset call
  too.  A reset call empties them before it queries the store: with six records shown, a
  reset call that the store rejects leaves none.
\<close>

theorem failed_reset_counterexample:
  "getDocs offlineHost (composedQuery True browsing) = Inl (FirebaseError ''unavailable'')
   \<and> length (allFlatsData browsing) = 6
   \<and> allFlatsData (fetchFlats offlineHost True browsing) = []"
proof -
  have f: "getDocs offlineHost (composedQuery True browsing) = Inl (FirebaseError ''unavailable'')"
    by (simp add: offlineHost_def)
  show ?thesis
    using f by (simp add: fetchFlats_failed [OF browsing_facts(1,2) f] composing_simps
          fetchFailed_def showToast_def browsing_facts)
qed

section \<open>Cursor and load-more after a page\<close>
text \<open>
  Claim C4, as amended.  After a fetch that the store answers and whose cards are all
  built, the cursor is the last snapshot of the page when the page is not empty; after
  an empty page it is what it was when the query was composed: absent on a reset call,
  the previous cursor on a continuation.
\<close>

theorem cursor_after_page:
  assumes "flatsListInDom s" "\<not> (showFavorites (currentFilters s) \<and> favorites s = [])"
    and "getDocs h (composedQuery reset s) = Inr docs"
    and "renderError h (currentCurrency s) (map toFlat docs) = None"
  shows "lastVisibleFlat (fetchFlats h reset s) =
           (if docs \<noteq> [] then Some (last docs)
            else if reset then None else lastVisibleFlat s)"
  by (simp add: fetchFlats_page [OF assms] composing_simps showToast_def)

lemma forSale_facts:
  "flatsListInDom forSale" "\<not> (showFavorites (currentFilters forSale) \<and> favorites forSale = [])"
  "getDocs sampleHost (composedQuery True forSale) = Inr [flatB]"
  "renderError sampleHost (currentCurrency forSale) (map toFlat [flatB]) = None"
  by code_simp+

lemma emptyHost_facts:
  "getDocs emptyHost (composedQuery False browsing) = Inr []"
  "renderError emptyHost (currentCurrency browsing) (map toFlat []) = None"
  by (simp_all add: emptyHost_def)

theorem cursor_after_page_witness:
  "getDocs sampleHost (composedQuery True forSale) = Inr [flatB]
   \<and> lastVisibleFlat (fetchFlats sampleHost True forSale) = Some flatB"
  using cursor_after_page [OF forSale_facts] forSale_facts(3) by simp

text \<open>
  Claim C4 as stated has the cursor absent after every empty page.  After a full page of
  six, a load-more that gets an empty page keeps the cursor of the full page.
\<close>

theorem cursor_kept_counterexample:
  "\<not> loadMoreBtn_hidden browsing
   \<and> getDocs emptyHost (composedQuery False browsing) = Inr []
   \<and> renderError emptyHost (currentCurrency browsing) (map toFlat []) = None
   \<and> lastVisibleFlat (handleLoadMore emptyHost browsing) = Some (last sixFlats)"
  using emptyHost_facts
  by (simp add: handleLoadMore_def fetchFlats_page [OF browsing_facts(1,2) emptyHost_facts]
        composing_simps showToast_def browsing_facts)

text \<open>
  Claim C5.  After a fetch that the store answers and whose cards are all built, the
  load-more button is shown exactly when the page has six records.
\<close>

theorem load_more_offered:
  assumes "flatsListInDom s" "\<not> (showFavorites (currentFilters s) \<and> favorites s = [])"
    and "getDocs h (composedQuery reset s) = Inr docs"
    and "renderError h (currentCurrency s) (map toFlat docs) = None"
  shows "(\<not> loadMoreBtn_hidden (fetchFlats h reset s)) = (length docs = 6)"
  by (simp add: fetchFlats_page [OF assms] composing_simps showToast_def flatsPerPage_def)

lemma fullPage_facts:
  "flatsListInDom initialState"
  "\<not> (showFavorites (currentFilters initialState) \<and> favorites initialState = [])"
  "getDocs fullPageHost (composedQuery True initialState) = Inr sixFlats"
  "renderError fullPageHost (currentCurrency initialState) (map toFlat sixFlats) = None"
  by code_simp+

theorem load_more_offered_witness:
  "length sixFlats = 6
   \<and> \<not> loadMoreBtn_hidden (fetchFlats fullPageHost True initialState)
   \<and> loadMoreBtn_hidden (fetchFlats sampleHost True forSale)"
  using load_more_offered [OF fullPage_facts] load_more_offered [OF forSale_facts]
  by (simp add: browsing_facts)

section \<open>The price bounds of the filters\<close>

lemma fetchFlats_keeps:
  "currentFilters (fetchFlats h reset s) = currentFilters s
   \<and> favorites (fetchFlats h reset s) = favorites s
   \<and> flatsListInDom (fetchFlats h reset s) = flatsListInDom s"
  by (simp add: fetch_simps split: sum.splits)

lemma fetchFlats_issued:
  assumes "flatsListInDom s" "\<not> (showFavorites (currentFilters s) \<and> favorites s = [])"
  shows "issued (fetchFlats h reset s) = issued s @ [composedQuery reset s]"
  by (subst fetchFlats_unfold) (use assms in \<open>auto simp: fetch_simps split: sum.splits\<close>)

lemma flatsQueryRef_lower:
  "(Where (Field ''price'') Ge v \<in> set (flatsQueryRef f favs cur))
     = (minPrice f \<noteq> [] \<and> v = JNum (parseFloat (minPrice f)))"
  by (auto simp: flatsQueryRef_def orderClause_def split: option.splits)

lemma flatsQueryRef_upper:
  "(Where (Field ''price'') Le v \<in> set (flatsQueryRef f favs cur))
     = (maxPrice f \<noteq> [] \<and> v = JNum (parseFloat (maxPrice f)))"
  by (auto simp: flatsQueryRef_def orderClause_def split: option.splits)

text \<open>
  Claim C6, as amended.  \<^verbatim>\<open>handleApplyFilters\<close> stores the texts of the two price inputs
  as they are; the query composed next has a lower (upper) price predicate exactly when
  the text of the lower (upper) bound is not empty, and its bound is then
  \<^verbatim>\<open>parseFloat\<close> of the text, which is \<open>NaN\<close> when the parse fails.  Only an empty text is
  treated as absent.
\<close>

theorem price_bounds_as_typed:
  assumes "flatsListInDom s" "\<not> (favoriteToggleButton ui \<and> favorites s = [])"
  shows "minPrice (currentFilters (handleApplyFilters h (Some ui) s)) = minPriceFilter ui
       \<and> maxPrice (currentFilters (handleApplyFilters h (Some ui) s)) = maxPriceFilter ui
       \<and> (\<exists>q. issued (handleApplyFilters h (Some ui) s) = issued s @ [q]
             \<and> (\<forall>v. (Where (Field ''price'') Ge v \<in> set q)
                      = (minPriceFilter ui \<noteq> [] \<and> v = JNum (parseFloat (minPriceFilter ui))))
             \<and> (\<forall>v. (Where (Field ''price'') Le v \<in> set q)
                      = (maxPriceFilter ui \<noteq> [] \<and> v = JNum (parseFloat (maxPriceFilter ui)))))"
proof -
  let ?s = "s\<lparr>currentFilters := (currentFilters s)
                 \<lparr>offerType := offerTypeFilter ui, flatType := flatTypeFilter ui,
                  minPrice := minPriceFilter ui, maxPrice := maxPriceFilter ui,
                  sortBy := sortByFilter ui, showFavorites := favoriteToggleButton ui\<rparr>\<rparr>"
  have app: "handleApplyFilters h (Some ui) s = fetchFlats h True ?s"
    by (simp add: handleApplyFilters_def)
  have pre: "flatsListInDom ?s" "\<not> (showFavorites (currentFilters ?s) \<and> favorites ?s = [])"
    using assms by simp_all
  have "issued (fetchFlats h True ?s) = issued s @ [composedQuery True ?s]"
    using fetchFlats_issued [OF pre, of h True] by simp
  then show ?thesis
    unfolding app
    by (simp add: fetchFlats_keeps composedQuery_def flatsQueryRef_lower flatsQueryRef_upper)
qed

lemma initialState_facts:
  "flatsListInDom initialState" "favorites initialState = []" "issued initialState = []"
  "allFlatsData initialState = []" "currentCurrency initialState = ''USD''"
  by (simp_all add: initialState_def)

theorem price_bounds_as_typed_witness:
  "minPrice (currentFilters (handleApplyFilters sampleHost (Some badMinimum) initialState)) = ''abc''
   \<and> maxPrice (currentFilters (handleApplyFilters sampleHost (Some badMinimum) initialState)) = []
   \<and> length (issued (handleApplyFilters sampleHost (Some badMinimum) initialState)) = 1"
proof -
  have a: "\<not> (favoriteToggleButton badMinimum \<and> favorites initialState = [])"
    "minPriceFilter badMinimum = ''abc''" "maxPriceFilter badMinimum = []"
    by (simp_all add: badMinimum_def defaultControls_def)
  from price_bounds_as_typed [OF initialState_facts(1) a(1), of sampleHost]
  show ?thesis
    by (auto simp: a initialState_facts)
qed

text \<open>
  Claim C6 as stated adds no price predicate when the parse of a bound fails.  With
  \<^verbatim>\<open>abc\<close> typed as the lower bound the parse fails, and the query carries the predicate
  \<^verbatim>\<open>price >= NaN\<close>.
\<close>

theorem unparsed_bound_counterexample:
  "parseFloat (minPriceFilter badMinimum) = NaN
   \<and> Where (Field ''price'') Ge (JNum NaN)
       \<in> set (last (issued (handleApplyFilters sampleHost (Some badMinimum) initialState)))"
  by code_simp

section \<open>Records after the filters are applied\<close>

lemma getField_toFlat:
  "k \<noteq> ''id'' \<Longrightarrow> getField (toFlat d) k = getField (snap_data d) k"
  by (simp add: getField_def toFlat_def map_add_def split: option.splits)

lemma matches_passes:
  assumes "\<forall>c \<in> set (flatsQueryRef f favs cur). matches c d"
  shows "passesFilters f (toFlat d)"
proof -
  have a: "offerType f \<noteq> ''all'' \<Longrightarrow> matches (Where (Field ''offerType'') Eq (JStr (offerType f))) d"
    and b: "flatType f \<noteq> ''all'' \<Longrightarrow> matches (Where (Field ''type'') Eq (JStr (flatType f))) d"
    and c: "minPrice f \<noteq> [] \<Longrightarrow> matches (Where (Field ''price'') Ge (JNum (parseFloat (minPrice f)))) d"
    and e: "maxPrice f \<noteq> [] \<Longrightarrow> matches (Where (Field ''price'') Le (JNum (parseFloat (maxPrice f)))) d"
    using assms by (simp_all add: flatsQueryRef_def)
  show ?thesis
    using a b c e by (auto simp: passesFilters_def getField_toFlat)
qed

lemma fetch_keeps_filtered:
  assumes "honoursFilters h"
    and "if reset then flatsListInDom s
         else \<forall>u \<in> set (allFlatsData s). passesFilters (currentFilters s) u"
  shows "\<forall>u \<in> set (allFlatsData (fetchFlats h reset s)). passesFilters (currentFilters s) u"
proof -
  have page: "\<And>docs d. getDocs h (composedQuery reset s) = Inr docs \<Longrightarrow> d \<in> set docs
      \<Longrightarrow> passesFilters (currentFilters s) (toFlat d)"
  proof -
    fix docs d
    assume "getDocs h (composedQuery reset s) = Inr docs" "d \<in> set docs"
    with assms(1) have "\<forall>c \<in> set (composedQuery reset s). matches c d"
      unfolding honoursFilters_def by blast
    then show "passesFilters (currentFilters s) (toFlat d)"
      unfolding composedQuery_def by (rule matches_passes)
  qed
  show ?thesis
    by (subst fetchFlats_unfold)
      (use assms(2) page in \<open>auto simp: fetch_simps split: sum.splits if_splits\<close>)
qed

lemma loadMore_keeps_filtered:
  assumes "\<forall>h' \<in> set hosts. honoursFilters h'"
    and "\<forall>u \<in> set (allFlatsData t). passesFilters (currentFilters t) u"
  shows "currentFilters (foldl (\<lambda>t h'. handleLoadMore h' t) t hosts) = currentFilters t
       \<and> (\<forall>u \<in> set (allFlatsData (foldl (\<lambda>t h'. handleLoadMore h' t) t hosts)).
             passesFilters (currentFilters t) u)"
  using assms
proof (induction hosts arbitrary: t)
  case Nil
  then show ?case by simp
next
  case (Cons h1 hosts)
  let ?t = "handleLoadMore h1 t"
  have f: "currentFilters ?t = currentFilters t"
    by (simp add: handleLoadMore_def fetchFlats_keeps)
  have "\<forall>u \<in> set (allFlatsData ?t). passesFilters (currentFilters t) u"
    unfolding handleLoadMore_def using Cons.prems by (intro fetch_keeps_filtered) simp_all
  with Cons.IH [of ?t] Cons.prems(1) f show ?case by simp
qed

text \<open>
  Claim C1.  Over a store that keeps to the filters of a query, applying the filters
  (which fetches the first page), and any number of load-more fetches after it, leave in
  \<^verbatim>\<open>allFlatsData\<close> only flats that satisfy every active predicate: the offer type and
  the flat type when they are not \<^verbatim>\<open>all\<close>, the price bounds when their texts are not
  empty.  The page is taken to have its list container.
\<close>

theorem records_pass_filters:
  assumes "honoursFilters h" "\<forall>h' \<in> set hosts. honoursFilters h'" "flatsListInDom s"
  shows "\<forall>u \<in> set (allFlatsData
                      (foldl (\<lambda>t h'. handleLoadMore h' t) (handleApplyFilters h (Some ui) s) hosts)).
           (offerTypeFilter ui \<noteq> ''all'' \<longrightarrow> getField u ''offerType'' = JStr (offerTypeFilter ui))
         \<and> (flatTypeFilter ui \<noteq> ''all'' \<longrightarrow> getField u ''type'' = JStr (flatTypeFilter ui))
         \<and> (minPriceFilter ui \<noteq> [] \<longrightarrow>
              (case getField u ''price'' of
                 JNum p \<Rightarrow> num_le (parseFloat (minPriceFilter ui)) p | _ \<Rightarrow> False))
         \<and> (maxPriceFilter ui \<noteq> [] \<longrightarrow>
              (case getField u ''price'' of
                 JNum p \<Rightarrow> num_le p (parseFloat (maxPriceFilter ui)) | _ \<Rightarrow> False))"
proof -
  let ?s = "s\<lparr>currentFilters := (currentFilters s)
                 \<lparr>offerType := offerTypeFilter ui, flatType := flatTypeFilter ui,
                  minPrice := minPriceFilter ui, maxPrice := maxPriceFilter ui,
                  sortBy := sortByFilter ui, showFavorites := favoriteToggleButton ui\<rparr>\<rparr>"
  let ?t = "handleApplyFilters h (Some ui) s"
  have app: "?t = fetchFlats h True ?s"
    by (simp add: handleApplyFilters_def)
  have f: "currentFilters ?t = currentFilters ?s"
    unfolding app by (simp add: fetchFlats_keeps)
  have first: "\<forall>u \<in> set (allFlatsData ?t). passesFilters (currentFilters ?s) u"
    unfolding app using assms(3) by (intro fetch_keeps_filtered [OF assms(1)]) simp
  from loadMore_keeps_filtered [OF assms(2), of ?t] first f
  have "\<forall>u \<in> set (allFlatsData (foldl (\<lambda>t h'. handleLoadMore h' t) ?t hosts)).
          passesFilters (currentFilters ?s) u"
    by simp
  then show ?thesis by (simp add: passesFilters_def cong: jsval.case_cong)
qed

lemma answer_matches:
  assumes "d \<in> set (answer coll q)"
  shows "list_all (\<lambda>c. matches c d) q"
proof -
  from assms have "d \<in> set (filter (\<lambda>d. list_all (\<lambda>c. matches c d) q) coll)"
    unfolding answer_def Let_def
    by (auto split: option.splits dest!: in_set_takeD in_set_dropD set_dropWhileD)
  then show ?thesis by simp
qed

lemma sampleHost_honours: "honoursFilters sampleHost"
  by (auto simp: honoursFilters_def sampleHost_def list_all_iff dest!: answer_matches)

theorem records_pass_filters_witness:
  "honoursFilters sampleHost \<and> flatsListInDom initialState
   \<and> allFlatsData (foldl (\<lambda>t h'. handleLoadMore h' t)
        (handleApplyFilters sampleHost (Some saleOnly) initialState) [sampleHost]) = [toFlat flatB]
   \<and> getField (toFlat flatB) ''offerType'' = JStr ''sale''"
proof -
  have m: "\<forall>h' \<in> set [sampleHost]. honoursFilters h'"
    by (simp add: sampleHost_honours)
  have v: "allFlatsData (foldl (\<lambda>t h'. handleLoadMore h' t)
        (handleApplyFilters sampleHost (Some saleOnly) initialState) [sampleHost]) = [toFlat flatB]"
    by code_simp
  have o: "offerTypeFilter saleOnly = ''sale''"
    by (simp add: saleOnly_def)
  from records_pass_filters [OF sampleHost_honours m initialState_facts(1), of saleOnly]
  have "getField (toFlat flatB) ''offerType'' = JStr ''sale''"
    unfolding v o by simp
  then show ?thesis
    using sampleHost_honours initialState_facts(1) v by simp
qed

section \<open>Changing the display currency\<close>

lemma switcher_never_assigned:
  "elements_currencySwitcher (fetchFlats h reset s) = elements_currencySwitcher s"
  "elements_currencySwitcher (handleApplyFilters h controls s) = elements_currencySwitcher s"
  "elements_currencySwitcher (handleLoadMore h s) = elements_currencySwitcher s"
  "elements_currencySwitcher (authStateSignedOut h s) = elements_currencySwitcher s"
  "elements_currencySwitcher (fst (handleCurrencyChange h s)) = elements_currencySwitcher s"
proof -
  show f: "\<And>reset s. elements_currencySwitcher (fetchFlats h reset s) = elements_currencySwitcher s"
    by (simp add: fetch_simps split: sum.splits)
  show "elements_currencySwitcher (handleApplyFilters h controls s) = elements_currencySwitcher s"
    by (simp add: handleApplyFilters_def f showToast_def split: option.splits)
  show "elements_currencySwitcher (handleLoadMore h s) = elements_currencySwitcher s"
    by (simp add: handleLoadMore_def f)
  show "elements_currencySwitcher (authStateSignedOut h s) = elements_currencySwitcher s"
    by (simp add: authStateSignedOut_def f)
  show "elements_currencySwitcher (fst (handleCurrencyChange h s)) = elements_currencySwitcher s"
    by (simp add: handleCurrencyChange_def appendCards_eq split: option.splits)
qed

lemma createFlatCard_price:
  "createFlatCard h a flat = Inr c
   \<Longrightarrow> formatPrice h a (orElse (getField flat ''price'') (JNum (Fin 0))) = Inr (card_price c)"
  by (auto simp: createFlatCard_def split: sum.splits)

lemma renderedCards_nth:
  "i < length (renderedCards h a fl)
   \<Longrightarrow> i < length fl \<and> createFlatCard h a (fl ! i) = Inr (renderedCards h a fl ! i)"
proof (induction fl arbitrary: i)
  case Nil
  then show ?case by simp
next
  case (Cons flat rest)
  then show ?case
    by (cases "createFlatCard h a flat"; cases i) auto
qed

text \<open>What the handler does from its second statement on, that is, what it would do for
  a switcher that is there: no query, the records and their stored prices untouched,
  and every card shown with the host's format of the stored price times the rate of the
  chosen currency.\<close>

lemma currency_change_with_switcher:
  assumes "elements_currencySwitcher s = Some a"
  shows "allFlatsData (fst (handleCurrencyChange h s)) = allFlatsData s
   \<and> issued (fst (handleCurrencyChange h s)) = issued s
   \<and> currentCurrency (fst (handleCurrencyChange h s)) = a
   \<and> (\<forall>i < length (flatsList (fst (handleCurrencyChange h s))).
         i < length (allFlatsData s)
         \<and> (\<exists>c. flatsList (fst (handleCurrencyChange h s)) ! i = Card c
                \<and> formatCurrency h a
                     (numTimes (ToNumber h (orElse (getField (allFlatsData s ! i) ''price'') (JNum (Fin 0))))
                        (case map_of exchangeRates a of None \<Rightarrow> NaN | Some r \<Rightarrow> Fin r))
                   = Inr (card_price c)))"
proof -
  have "\<And>i. i < length (renderedCards h a (allFlatsData s))
      \<Longrightarrow> i < length (allFlatsData s)
        \<and> formatPrice h a (orElse (getField (allFlatsData s ! i) ''price'') (JNum (Fin 0)))
            = Inr (card_price (renderedCards h a (allFlatsData s) ! i))"
    using renderedCards_nth [of _ h a "allFlatsData s"] createFlatCard_price by blast
  then show ?thesis
    using assms by (simp add: handleCurrencyChange_def appendCards_eq formatPrice_def)
qed

lemma currency_change_with_switcher_sample:
  "map (\<lambda>n. case n of Card c \<Rightarrow> card_price c | Skeleton \<Rightarrow> []) 
       (flatsList (fst (handleCurrencyChange sampleHost browsingWithSwitcher)))
     = replicate 6 ''EUR 230,000''"
  by code_simp

text \<open>
  Claim C7 (currency redisplay re-renders the records with the price times the rate of the
  chosen currency) against the script as it is.  \<^verbatim>\<open>elements.currencySwitcher\<close> is never
  assigned, so in the initial state and after a fetch it is undefined, and
  \<^verbatim>\<open>handleCurrencyChange\<close> ends in a TypeError at its first statement: the state is the
  one it found, the card still shows the price in dollars.
\<close>

theorem currency_change_throws:
  "elements_currencySwitcher initialState = None
   \<and> elements_currencySwitcher (fetchFlats sampleHost True forSale) = None
   \<and> flatsList (fetchFlats sampleHost True forSale)
       = [Card \<lparr>card_flat_id = JStr ''b2'', card_price = ''USD 250,000'', card_offer = ''Sale'',
                card_amenities = [''Gym'']\<rparr>]
   \<and> handleCurrencyChange sampleHost (fetchFlats sampleHost True forSale)
       = (fetchFlats sampleHost True forSale, Some TypeError)"
proof -
  have a: "elements_currencySwitcher initialState = None"
    by (simp add: initialState_def)
  have b: "elements_currencySwitcher (fetchFlats sampleHost True forSale) = None"
    by (simp add: switcher_never_assigned forSale_def a)
  have c: "flatsList (fetchFlats sampleHost True forSale)
       = [Card \<lparr>card_flat_id = JStr ''b2'', card_price = ''USD 250,000'', card_offer = ''Sale'',
                card_amenities = [''Gym'']\<rparr>]"
    by code_simp
  show ?thesis
    using a b c by (simp add: handleCurrencyChange_def)
qed

end
